theory Spec2Isabelle
  imports Main
begin

section \<open>Data model\<close>

text \<open>
  Go strings and byte slices are both sequences of bytes; \<^typ>\<open>char\<close> is an
  8-bit byte, so both are character lists. A nil slice and an empty slice have
  length 0 and the code never tells them apart: both are \<open>[]\<close>.
\<close>

type_synonym bytes = "char list"

text \<open>
  Modelled from the spec: the type \<open>distribution.Descriptor\<close>, which the
  package \<open>distribution\<close> declares outside \<open>manifests.go\<close>. The spec
  (section 3) gives it a digest, a size, a media type and an optional platform,
  annotations and alternate URLs; the platform's own fields are not given and
  its type is left open. \<open>Size\<close> is an \<open>int64\<close>; the only value the code
  stores in it is \<open>int64(len(b))\<close>, the length of a slice, which always fits,
  so it is an integer here.
\<close>

typedecl Platform

record Descriptor =
  MediaType :: string
  Size :: int
  Digest :: string
  URLs :: "string list"
  Annotations :: "string \<rightharpoonup> string"
  Platform :: "Platform option"

text \<open>
  Modelled from the spec: \<open>manifest.Versioned\<close> of the package \<open>manifest\<close>,
  the schema-version marker and the media-type field that a manifest embeds.
\<close>

record Versioned =
  SchemaVersion :: int
  MediaType :: string

text \<open>\<open>piddle.Manifest\<close>: the embedded \<open>Versioned\<close>, the config and the layers.\<close>

record Manifest =
  Versioned :: Versioned
  Config :: Descriptor
  Layers :: "Descriptor list"

text \<open>\<open>piddle.DeserializedManifest\<close>: the manifest and its canonical bytes.\<close>

record DeserializedManifest =
  Manifest :: Manifest
  canonical :: bytes

definition MediaTypeImageIndex :: string where
  "MediaTypeImageIndex = ''application/vnd.piddle.image.index.v1+json''"

text \<open>\<open>Manifest.References\<close>: the config, then the layers appended.\<close>

definition References :: "Manifest \<Rightarrow> Descriptor list" where
  "References m = ([] @ [Config m]) @ Layers m"

text \<open>\<open>Manifest.Target\<close>.\<close>

definition Target :: "Manifest \<Rightarrow> Descriptor" where
  "Target m = Config m"

section \<open>Errors\<close>

text \<open>
  Every error the code builds is a Go \<open>error\<close> carrying a message. The
  constructors follow the spec's taxonomy (section 7); \<open>error_message\<close> is the
  text \<open>fmt.Errorf\<close> or \<open>errors.New\<close> gives it in the source. The errors of
  the standard library (\<open>mime\<close>, \<open>encoding/json\<close>) are passed on unchanged and
  carry the library's message.
\<close>

datatype error =
    MediaTypeParseError string
  | UnsupportedMediaTypeError string
  | DuplicateRegistrationError string
  | JSONError string
  | SchemaMismatchError string string
  | UninitializedManifestError

fun error_message :: "error \<Rightarrow> string" where
  "error_message (MediaTypeParseError msg) = msg"
| "error_message (UnsupportedMediaTypeError mediaType) =
     ''unsupported manifest media type and no default available: '' @ mediaType"
| "error_message (DuplicateRegistrationError mediaType) =
     ''manifest media type registration would overwrite existing: '' @ mediaType"
| "error_message (JSONError msg) = msg"
| "error_message (SchemaMismatchError expected actual) =
     ''mediaType in manifest should be '' @ [CHR 0x27] @ expected @ [CHR 0x27] @
     '' not '' @ [CHR 0x27] @ actual @ [CHR 0x27]"
| "error_message UninitializedManifestError =
     ''JSON representation not initialized in DeserializedManifest''"

section \<open>The schema registry (manifests.go)\<close>

text \<open>
  \<open>UnmarshalFunc\<close>: from bytes to a manifest and its descriptor, or an error.
  The manifest is a value of the interface \<open>distribution.Manifest\<close>; the type
  of the implementation is the parameter \<open>'m\<close>.
\<close>

type_synonym 'm UnmarshalFunc = "bytes \<Rightarrow> error + ('m \<times> Descriptor)"

text \<open>The package variable \<open>mappings\<close>: a Go map from media type to function.\<close>

type_synonym 'm mappings = "string \<rightharpoonup> 'm UnmarshalFunc"

text \<open>
  \<open>UnmarshalManifest\<close>. The first argument is \<open>mime.ParseMediaType\<close> of the Go
  standard library, reduced to what the caller reads of it: the media type, or
  the error (the parameter map is dropped by the caller). The second is the
  registry at the time of the call.
\<close>

definition UnmarshalManifest ::
  "(string \<Rightarrow> error + string) \<Rightarrow> 'm mappings \<Rightarrow> string \<Rightarrow> bytes \<Rightarrow> error + ('m \<times> Descriptor)"
where
  "UnmarshalManifest ParseMediaType mappings ctHeader p =
     (case (if ctHeader \<noteq> [] then ParseMediaType ctHeader else Inr []) of
        Inl err \<Rightarrow> Inl err
      | Inr mediaType \<Rightarrow>
          (case mappings mediaType of
             Some unmarshalFunc \<Rightarrow> unmarshalFunc p
           | None \<Rightarrow>
               (case mappings [] of
                  Some unmarshalFunc \<Rightarrow> unmarshalFunc p
                | None \<Rightarrow> Inl (UnsupportedMediaTypeError mediaType))))"

text \<open>
  \<open>RegisterManifestSchema\<close> writes the package variable: the registry is passed
  in and returned together with the error (\<open>None\<close> is Go's \<open>nil\<close>).
\<close>

definition RegisterManifestSchema ::
  "'m mappings \<Rightarrow> string \<Rightarrow> 'm UnmarshalFunc \<Rightarrow> 'm mappings \<times> error option"
where
  "RegisterManifestSchema mappings mediaType u =
     (if mediaType \<in> dom mappings
      then (mappings, Some (DuplicateRegistrationError mediaType))
      else (mappings(mediaType \<mapsto> u), None))"

text \<open>
  \<open>ManifestMediaTypes\<close> ranges over the map in Go's unspecified order and keeps
  the keys other than the empty string: a set.
\<close>

definition ManifestMediaTypes :: "'m mappings \<Rightarrow> string set" where
  "ManifestMediaTypes mappings = {t \<in> dom mappings. t \<noteq> []}"

section \<open>The piddle manifest (manifest/piddle/manifest.go)\<close>

text \<open>The zero values Go gives to a fresh variable and to \<open>new\<close>.\<close>

definition zero_Descriptor :: Descriptor where
  "zero_Descriptor =
     \<lparr>Descriptor.MediaType = [], Size = 0, Digest = [], URLs = [],
      Annotations = Map.empty, Platform = None\<rparr>"

definition zero_Manifest :: Manifest where
  "zero_Manifest =
     \<lparr>Versioned = \<lparr>SchemaVersion = 0, MediaType = []\<rparr>,
      Config = zero_Descriptor, Layers = []\<rparr>"

definition new_DeserializedManifest :: DeserializedManifest where
  "new_DeserializedManifest = \<lparr>Manifest = zero_Manifest, canonical = []\<rparr>"


text \<open>
  \<open>DeserializedManifest.UnmarshalJSON\<close>, a method on a pointer: the receiver
  is passed in and returned as the call leaves it, with the error. The argument
  \<open>Unmarshal\<close> is \<open>json.Unmarshal\<close> of the standard library into a fresh
  \<open>Manifest\<close> variable: the decoded value, or the library's error.
\<close>

definition UnmarshalJSON ::
  "(bytes \<Rightarrow> error + Manifest) \<Rightarrow> DeserializedManifest \<Rightarrow> bytes \<Rightarrow>
     DeserializedManifest \<times> error option"
where
  "UnmarshalJSON Unmarshal m b =
     (let m1 = m\<lparr>canonical := b\<rparr>
      in case Unmarshal (canonical m1) of
           Inl err \<Rightarrow> (m1, Some err)
         | Inr manifest \<Rightarrow>
             if Versioned.MediaType (Versioned manifest) \<noteq> MediaTypeImageIndex
             then (m1, Some (SchemaMismatchError MediaTypeImageIndex
                               (Versioned.MediaType (Versioned manifest))))
             else (m1\<lparr>Manifest := manifest\<rparr>, None))"

text \<open>\<open>DeserializedManifest.MarshalJSON\<close>.\<close>

definition MarshalJSON :: "DeserializedManifest \<Rightarrow> error + bytes" where
  "MarshalJSON m =
     (if length (canonical m) > 0 then Inr (canonical m)
      else Inl UninitializedManifestError)"

text \<open>
  \<open>DeserializedManifest.Payload\<close>: the media type, the bytes and the error,
  which is always nil.
\<close>

definition Payload :: "DeserializedManifest \<Rightarrow> string \<times> bytes \<times> error option" where
  "Payload m = (Versioned.MediaType (Versioned (Manifest m)), canonical m, None)"

text \<open>
  The function \<open>schema2Func\<close> that \<open>init\<close> registers. \<open>FromBytes\<close> is
  \<open>digest.FromBytes\<close> of the go-digest library.
\<close>

definition schema2Func ::
  "(bytes \<Rightarrow> error + Manifest) \<Rightarrow> (bytes \<Rightarrow> string) \<Rightarrow> DeserializedManifest UnmarshalFunc"
where
  "schema2Func Unmarshal FromBytes b =
     (case UnmarshalJSON Unmarshal new_DeserializedManifest b of
        (m, Some err) \<Rightarrow> Inl err
      | (m, None) \<Rightarrow>
          Inr (m, zero_Descriptor\<lparr>Digest := FromBytes b, Size := int (length b),
                                   Descriptor.MediaType := MediaTypeImageIndex\<rparr>))"

text \<open>
  The package's \<open>init\<close>: it registers \<open>schema2Func\<close> and panics with a message
  when the registration fails (\<open>Inl\<close> is the panic).
\<close>

definition piddle_init ::
  "(bytes \<Rightarrow> error + Manifest) \<Rightarrow> (bytes \<Rightarrow> string) \<Rightarrow>
     DeserializedManifest mappings \<Rightarrow> string + DeserializedManifest mappings"
where
  "piddle_init Unmarshal FromBytes mappings =
     (case RegisterManifestSchema mappings MediaTypeImageIndex (schema2Func Unmarshal FromBytes) of
        (mappings', Some err) \<Rightarrow> Inl (''Unable to register manifest: '' @ error_message err)
      | (mappings', None) \<Rightarrow> Inr mappings')"

section \<open>The library functions\<close>

text \<open>
  The functions above take the standard library as arguments, and what the
  theorems below say of the repository's code holds for every header parser,
  encoder, decoder and digest. This section fixes particular ones: the header
  parser after the library's source, of which the normalisation of a header is
  proved, and tables of documents for the encoder and the decoder, so that the
  theorems can be evaluated on concrete headers and documents.
\<close>

subsection \<open>The media type of a header\<close>

text \<open>
  \<open>mime.ParseMediaType\<close> of the Go standard library, after its source
  (\<open>mime/mediatype.go\<close> and \<open>mime/grammar.go\<close>) and reduced to its media type
  and its error. The parameters are parsed and a name repeated with another value
  is rejected, as in the library; the parameter map itself and its RFC 2231
  continuations, which raise no error and which \<open>UnmarshalManifest\<close> drops, are
  not built. White space and capitals are those of ASCII: the library also trims
  Unicode white space and folds Unicode capitals, so a header that needs either is
  accepted by the library and rejected here. A header accepted here is accepted by
  the library with the same media type.
\<close>

definition isTSpecial :: "char \<Rightarrow> bool" where
  "isTSpecial c = (c \<in> set (''()<>@,;:'' @ [CHR 0x5C, CHR 0x22] @ ''/[]?=''))"

definition isTokenChar :: "char \<Rightarrow> bool" where
  "isTokenChar c =
     ((0x20::nat) < of_char c \<and> (of_char c :: nat) < 0x7f \<and> \<not> isTSpecial c)"

definition consumeToken :: "string \<Rightarrow> string \<times> string" where
  "consumeToken v = (takeWhile isTokenChar v, dropWhile isTokenChar v)"

definition isSpace :: "char \<Rightarrow> bool" where
  "isSpace c = (c \<in> set [CHR 0x09, CHR 0x0A, CHR 0x0B, CHR 0x0C, CHR 0x0D, CHR 0x20])"

definition TrimLeft :: "string \<Rightarrow> string" where
  "TrimLeft v = dropWhile isSpace v"

definition TrimSpace :: "string \<Rightarrow> string" where
  "TrimSpace v = rev (dropWhile isSpace (rev (dropWhile isSpace v)))"

definition toLower :: "char \<Rightarrow> char" where
  "toLower c =
     (if (0x41::nat) \<le> of_char c \<and> (of_char c :: nat) \<le> 0x5A
      then char_of (of_char c + (0x20::nat)) else c)"

definition ToLower :: "string \<Rightarrow> string" where
  "ToLower v = map toLower v"

definition checkMediaTypeDisposition :: "string \<Rightarrow> string option" where
  "checkMediaTypeDisposition s =
     (case consumeToken s of (typ, rest) \<Rightarrow>
        if typ = [] then Some ''mime: no media type''
        else if rest = [] then None
        else if hd rest \<noteq> CHR ''/'' then Some ''mime: expected slash after first token''
        else (case consumeToken (tl rest) of (subtype, rest') \<Rightarrow>
                if subtype = [] then Some ''mime: expected token after slash''
                else if rest' \<noteq> [] then Some ''mime: unexpected content after media subtype''
                else None))"

text \<open>The quoted string of \<open>consumeValue\<close>, after its opening quote.\<close>

fun consumeQuoted :: "string \<Rightarrow> string \<Rightarrow> (string \<times> string) option" where
  "consumeQuoted buffer [] = None"
| "consumeQuoted buffer [r] = (if r = CHR 0x22 then Some (buffer, []) else None)"
| "consumeQuoted buffer (r # c # v) =
     (if r = CHR 0x22 then Some (buffer, c # v)
      else if r = CHR 0x5C \<and> isTSpecial c then consumeQuoted (buffer @ [c]) v
      else if r = CHR 0x0D \<or> r = CHR 0x0A then None
      else consumeQuoted (buffer @ [r]) (c # v))"

definition consumeValue :: "string \<Rightarrow> string \<times> string" where
  "consumeValue v =
     (if v = [] then ([], [])
      else if hd v \<noteq> CHR 0x22 then consumeToken v
      else (case consumeQuoted [] (tl v) of
              Some (val, rest) \<Rightarrow> (val, rest)
            | None \<Rightarrow> ([], v)))"

definition consumeMediaParam :: "string \<Rightarrow> string \<times> string \<times> string" where
  "consumeMediaParam v =
     (let rest = TrimLeft v in
      if rest = [] \<or> hd rest \<noteq> CHR '';'' then ([], [], v)
      else
        (case consumeToken (TrimLeft (tl rest)) of (param0, rest1) \<Rightarrow>
           let param = ToLower param0 in
           if param = [] then ([], [], v)
           else
             let rest2 = TrimLeft rest1 in
             if rest2 = [] \<or> hd rest2 \<noteq> CHR ''='' then ([], [], v)
             else
               let rest3 = TrimLeft (tl rest2) in
               (case consumeValue rest3 of (val, rest4) \<Rightarrow>
                  if val = [] \<and> rest4 = rest3 then ([], [], v)
                  else (param, val, rest4))))"

text \<open>
  The loop over the parameters, with the parameters read so far: \<open>None\<close>
  when they are well formed, the message of the error otherwise. Every round
  consumes the semicolon of a parameter, so the rest gets shorter.
\<close>

function parseParams :: "(string \<times> string) list \<Rightarrow> string \<Rightarrow> string option" where
  "parseParams params v =
     (if v = [] then None
      else
        let v' = TrimLeft v in
        if v' = [] then None
        else (case consumeMediaParam v' of (key, val, rest) \<Rightarrow>
                if key = [] then
                  (if TrimSpace rest = '';'' then None
                   else Some ''mime: invalid media parameter'')
                else if (case map_of params key of
                           None \<Rightarrow> False
                         | Some v0 \<Rightarrow> v0 \<noteq> val)
                then Some ''mime: duplicate parameter name''
                else parseParams ((key, val) # params) rest))"
  by pat_completeness auto
termination
proof (relation "measure (\<lambda>(params, v). length v)")
  show "wf (measure (\<lambda>(params, v). length v))" by simp
next
  fix params :: "(string \<times> string) list" and v v' :: string and key pair val rest
  assume v': "v' = TrimLeft v"
    and triple: "(key, pair) = consumeMediaParam v'" "(val, rest) = pair"
    and key: "key \<noteq> []"
  have trim: "length (TrimLeft w) \<le> length w" for w
    by (simp add: TrimLeft_def length_dropWhile_le)
  have token: "length (snd (consumeToken w)) \<le> length w" for w
    by (simp add: consumeToken_def length_dropWhile_le)
  have quoted: "consumeQuoted buffer w = Some (x, r) \<Longrightarrow> length r \<le> length w"
    for buffer w x r
    by (induction buffer w rule: consumeQuoted.induct) (auto split: if_splits)
  have consumed: "length (snd (consumeValue w)) \<le> length w" for w
  proof (cases "w = [] \<or> hd w \<noteq> CHR 0x22")
    case True
    then show ?thesis using token [of w] by (auto simp: consumeValue_def)
  next
    case False
    show ?thesis
    proof (cases "consumeQuoted [] (tl w)")
      case None
      with False show ?thesis by (simp add: consumeValue_def)
    next
      case (Some q)
      obtain x r where q: "q = (x, r)" by (cases q)
      with Some have "length r \<le> length (tl w)" by (auto dest: quoted)
      with False Some q show ?thesis by (simp add: consumeValue_def)
    qed
  qed
  define r0 where "r0 = TrimLeft v'"
  define t1 where "t1 = consumeToken (TrimLeft (tl r0))"
  define r2 where "r2 = TrimLeft (snd t1)"
  define r3 where "r3 = TrimLeft (tl r2)"
  from triple have param: "consumeMediaParam v' = (key, val, rest)" by simp
  with key have ne: "r0 \<noteq> []" "r2 \<noteq> []" and rest: "rest = snd (consumeValue r3)"
    unfolding consumeMediaParam_def r0_def t1_def r2_def r3_def
    by (auto simp: Let_def split: if_splits prod.splits)
  have "length (snd (consumeValue r3)) \<le> length r3" by (rule consumed)
  also have "\<dots> \<le> length (tl r2)" unfolding r3_def by (rule trim)
  also have "\<dots> < length r2" using ne by (cases r2) auto
  also have "\<dots> \<le> length (snd t1)" unfolding r2_def by (rule trim)
  also have "\<dots> \<le> length (TrimLeft (tl r0))" unfolding t1_def by (rule token)
  also have "\<dots> \<le> length (tl r0)" by (rule trim)
  also have "\<dots> \<le> length r0" by simp
  also have "\<dots> \<le> length v'" unfolding r0_def by (rule trim)
  also have "\<dots> \<le> length v" unfolding v' by (rule trim)
  finally show "(((key, val) # params, rest), (params, v)) \<in> measure (\<lambda>(params, v). length v)"
    using rest by simp
qed

definition mime_ParseMediaType :: "string \<Rightarrow> error + string" where
  "mime_ParseMediaType v =
     (let base = takeWhile (\<lambda>c. c \<noteq> CHR '';'') v;
          mediatype = TrimSpace (ToLower base)
      in case checkMediaTypeDisposition mediatype of
           Some msg \<Rightarrow> Inl (MediaTypeParseError msg)
         | None \<Rightarrow>
             (case parseParams [] (drop (length base) v) of
                Some msg \<Rightarrow> Inl (MediaTypeParseError msg)
              | None \<Rightarrow> Inr mediatype))"

subsection \<open>Documents, their decoding and their digest\<close>

text \<open>
  A manifest with a config and one layer, and the document \<open>json.MarshalIndent\<close>
  writes for it with an empty prefix and an indent of three spaces.
\<close>

definition sample_Manifest :: Manifest where
  "sample_Manifest =
     \<lparr>Versioned = \<lparr>SchemaVersion = 1, MediaType = MediaTypeImageIndex\<rparr>,
      Config = zero_Descriptor
        \<lparr>Descriptor.MediaType := ''application/vnd.piddle.image.manifest.v1+json'',
         Size := 10, Digest := ''sha256:'' @ replicate 64 (CHR ''a'')\<rparr>,
      Layers = [zero_Descriptor
        \<lparr>Descriptor.MediaType := ''application/vnd.piddle.image.layer.v1.tar'',
         Size := 20, Digest := ''sha256:'' @ replicate 64 (CHR ''b'')\<rparr>]\<rparr>"

definition sample_payload :: bytes where
  \<open>sample_payload =
     ''{'' @ [CHR 0x0A] @
     ''   "schemaVersion": 1,'' @ [CHR 0x0A] @
     ''   "mediaType": "application/vnd.piddle.image.index.v1+json",'' @ [CHR 0x0A] @
     ''   "config": {'' @ [CHR 0x0A] @
     ''      "mediaType": "application/vnd.piddle.image.manifest.v1+json",'' @ [CHR 0x0A] @
     ''      "size": 10,'' @ [CHR 0x0A] @
     ''      "digest": "sha256:'' @ replicate 64 (CHR ''a'') @ ''"'' @ [CHR 0x0A] @
     ''   },'' @ [CHR 0x0A] @
     ''   "layers": ['' @ [CHR 0x0A] @
     ''      {'' @ [CHR 0x0A] @
     ''         "mediaType": "application/vnd.piddle.image.layer.v1.tar",'' @ [CHR 0x0A] @
     ''         "size": 20,'' @ [CHR 0x0A] @
     ''         "digest": "sha256:'' @ replicate 64 (CHR ''b'') @ ''"'' @ [CHR 0x0A] @
     ''      }'' @ [CHR 0x0A] @
     ''   ]'' @ [CHR 0x0A] @
     ''}''\<close>

text \<open>
  A document whose media type field is not the constant (scenario B of the spec),
  and the manifest it decodes to.
\<close>

definition wrong_payload :: bytes where
  \<open>wrong_payload =
     ''{"schemaVersion":1,"mediaType":"wrong","config":{"mediaType":"cfg",'' @
     ''"digest":"sha256:aaa","size":10},"layers":[]}''\<close>

definition wrong_Manifest :: Manifest where
  "wrong_Manifest =
     \<lparr>Versioned = \<lparr>SchemaVersion = 1, MediaType = ''wrong''\<rparr>,
      Config = zero_Descriptor
        \<lparr>Descriptor.MediaType := ''cfg'', Size := 10, Digest := ''sha256:aaa''\<rparr>,
      Layers = []\<rparr>"


definition replaced_payload :: bytes where
  \<open>replaced_payload =
     ''{'' @ [CHR 0x0A] @
     ''   "schemaVersion": 1,'' @ [CHR 0x0A] @
     ''   "mediaType": "application/vnd.piddle.image.index.v1+json",'' @ [CHR 0x0A] @
     ''   "config": {'' @ [CHR 0x0A] @
     ''      "mediaType": "'' @ [CHR 0x5C] @ ''ufffd",'' @ [CHR 0x0A] @
     ''      "size": 10,'' @ [CHR 0x0A] @
     ''      "digest": "sha256:'' @ replicate 64 (CHR ''a'') @ ''"'' @ [CHR 0x0A] @
     ''   },'' @ [CHR 0x0A] @
     ''   "layers": ['' @ [CHR 0x0A] @
     ''      {'' @ [CHR 0x0A] @
     ''         "mediaType": "application/vnd.piddle.image.layer.v1.tar",'' @ [CHR 0x0A] @
     ''         "size": 20,'' @ [CHR 0x0A] @
     ''         "digest": "sha256:'' @ replicate 64 (CHR ''b'') @ ''"'' @ [CHR 0x0A] @
     ''      }'' @ [CHR 0x0A] @
     ''   ]'' @ [CHR 0x0A] @
     ''}''\<close>

definition replaced_Manifest :: Manifest where
  "replaced_Manifest =
     \<lparr>Versioned = \<lparr>SchemaVersion = 1, MediaType = MediaTypeImageIndex\<rparr>,
      Config = zero_Descriptor
        \<lparr>Descriptor.MediaType := [CHR 0xEF, CHR 0xBF, CHR 0xBD],
         Size := 10, Digest := ''sha256:'' @ replicate 64 (CHR ''a'')\<rparr>,
      Layers = [zero_Descriptor
        \<lparr>Descriptor.MediaType := ''application/vnd.piddle.image.layer.v1.tar'',
         Size := 20, Digest := ''sha256:'' @ replicate 64 (CHR ''b'')\<rparr>]\<rparr>"

text \<open>
  \<open>json.Unmarshal\<close> and \<open>json.MarshalIndent\<close> as tables on these documents.
  An input outside a table is answered with an error; the instances below stay
  inside the tables.
\<close>

definition Unmarshal_table :: "bytes \<Rightarrow> error + Manifest" where
  "Unmarshal_table b =
     (if b = sample_payload then Inr sample_Manifest
      else if b = wrong_payload then Inr wrong_Manifest
      else if b = replaced_payload then Inr replaced_Manifest
      else Inl (JSONError ''unexpected end of JSON input''))"


text \<open>
  A stand-in for \<open>digest.FromBytes\<close> (the library hashes with SHA-256): the
  theorems say which bytes are digested, whatever the hash function is.
\<close>

definition FromBytes_standin :: "bytes \<Rightarrow> string" where
  "FromBytes_standin b = ''standin:'' @ b"

text \<open>The registry after the package's \<open>init\<close> has run on an empty one.\<close>

definition piddle_mappings :: "DeserializedManifest mappings" where
  "piddle_mappings =
     Map.empty(MediaTypeImageIndex \<mapsto> schema2Func Unmarshal_table FromBytes_standin)"

section \<open>Properties\<close>

subsection \<open>Lemmas on the operations\<close>

lemma UnmarshalManifest_resolved:
  assumes "(if ctHeader \<noteq> [] then ParseMediaType ctHeader else Inr []) = Inr mediaType"
  shows "UnmarshalManifest ParseMediaType mappings ctHeader p =
     (case mappings mediaType of
        Some f \<Rightarrow> f p
      | None \<Rightarrow> (case mappings [] of
                   Some f \<Rightarrow> f p
                 | None \<Rightarrow> Inl (UnsupportedMediaTypeError mediaType)))"
  using assms by (simp add: UnmarshalManifest_def)


lemma UnmarshalJSON_accepts:
  assumes "Unmarshal b = Inr decoded"
    and "Versioned.MediaType (Versioned decoded) = MediaTypeImageIndex"
  shows "UnmarshalJSON Unmarshal m b = (\<lparr>Manifest = decoded, canonical = b\<rparr>, None)"
  using assms by (simp add: UnmarshalJSON_def Let_def)

lemma UnmarshalJSON_mismatch:
  assumes "Unmarshal b = Inr decoded"
    and "Versioned.MediaType (Versioned decoded) \<noteq> MediaTypeImageIndex"
  shows "UnmarshalJSON Unmarshal m b =
     (m\<lparr>canonical := b\<rparr>,
      Some (SchemaMismatchError MediaTypeImageIndex (Versioned.MediaType (Versioned decoded))))"
  using assms by (simp add: UnmarshalJSON_def Let_def)

lemma UnmarshalJSON_undecodable:
  assumes "Unmarshal b = Inl err"
  shows "UnmarshalJSON Unmarshal m b = (m\<lparr>canonical := b\<rparr>, Some err)"
  using assms by (simp add: UnmarshalJSON_def Let_def)

lemma UnmarshalJSON_success_cases:
  assumes "UnmarshalJSON Unmarshal m b = (m', None)"
  obtains decoded where "Unmarshal b = Inr decoded"
    and "Versioned.MediaType (Versioned decoded) = MediaTypeImageIndex"
    and "m' = \<lparr>Manifest = decoded, canonical = b\<rparr>"
  using assms
  by (auto simp: UnmarshalJSON_def Let_def split: sum.splits if_splits)

lemma schema2Func_success:
  assumes "schema2Func Unmarshal FromBytes b = Inr (m, d)"
  shows "canonical m = b"
    and "Versioned.MediaType (Versioned (Manifest m)) = MediaTypeImageIndex"
    and "Unmarshal b = Inr (Manifest m)"
    and "d = zero_Descriptor\<lparr>Digest := FromBytes b, Size := int (length b),
                               Descriptor.MediaType := MediaTypeImageIndex\<rparr>"
proof -
  obtain m' e where r: "UnmarshalJSON Unmarshal new_DeserializedManifest b = (m', e)"
    by (cases "UnmarshalJSON Unmarshal new_DeserializedManifest b")
  with assms have e: "e = None" and m: "m = m'"
    and d: "d = zero_Descriptor\<lparr>Digest := FromBytes b, Size := int (length b),
                               Descriptor.MediaType := MediaTypeImageIndex\<rparr>"
    by (auto simp: schema2Func_def split: option.splits)
  from r e obtain decoded where dec: "Unmarshal b = Inr decoded"
    "Versioned.MediaType (Versioned decoded) = MediaTypeImageIndex"
    "m' = \<lparr>Manifest = decoded, canonical = b\<rparr>"
    by (auto elim: UnmarshalJSON_success_cases)
  with m show "canonical m = b"
    and "Versioned.MediaType (Versioned (Manifest m)) = MediaTypeImageIndex"
    and "Unmarshal b = Inr (Manifest m)" by simp_all
  from d show "d = zero_Descriptor\<lparr>Digest := FromBytes b, Size := int (length b),
                               Descriptor.MediaType := MediaTypeImageIndex\<rparr>" .
qed

lemma schema2Func_accepts:
  assumes "Unmarshal b = Inr decoded"
    and "Versioned.MediaType (Versioned decoded) = MediaTypeImageIndex"
  shows "schema2Func Unmarshal FromBytes b =
     Inr (\<lparr>Manifest = decoded, canonical = b\<rparr>,
          zero_Descriptor\<lparr>Digest := FromBytes b, Size := int (length b),
                           Descriptor.MediaType := MediaTypeImageIndex\<rparr>)"
  using assms by (simp add: schema2Func_def UnmarshalJSON_accepts)

lemma piddle_init_registers:
  assumes "piddle_init Unmarshal FromBytes mappings0 = Inr mappings"
  shows "mappings MediaTypeImageIndex = Some (schema2Func Unmarshal FromBytes)"
  using assms
  by (auto simp: piddle_init_def RegisterManifestSchema_def split: if_splits)

lemma piddle_init_empty:
  "piddle_init Unmarshal_table FromBytes_standin Map.empty = Inr piddle_mappings"
  by (simp add: piddle_init_def RegisterManifestSchema_def piddle_mappings_def)

lemma payloads_differ: "wrong_payload \<noteq> sample_payload"
  by (simp add: wrong_payload_def sample_payload_def)

lemma Unmarshal_table_sample: "Unmarshal_table sample_payload = Inr sample_Manifest"
  by (simp add: Unmarshal_table_def)

lemma Unmarshal_table_wrong: "Unmarshal_table wrong_payload = Inr wrong_Manifest"
  by (simp add: Unmarshal_table_def payloads_differ)


lemma sample_MediaType:
  "Versioned.MediaType (Versioned sample_Manifest) = MediaTypeImageIndex"
  by (simp add: sample_Manifest_def)

lemma wrong_MediaType:
  "Versioned.MediaType (Versioned wrong_Manifest) = ''wrong''"
  "''wrong'' \<noteq> MediaTypeImageIndex"
  by (simp_all add: wrong_Manifest_def MediaTypeImageIndex_def)

lemma parse_MediaTypeImageIndex:
  "mime_ParseMediaType MediaTypeImageIndex = Inr MediaTypeImageIndex"
  by code_simp


lemma parse_no_media_type:
  "mime_ParseMediaType ''; charset=utf-8'' = Inl (MediaTypeParseError ''mime: no media type'')"
  by code_simp

lemma parse_empty:
  "mime_ParseMediaType [] = Inl (MediaTypeParseError ''mime: no media type'')"
  by code_simp

lemma MediaTypeImageIndex_not_empty: "MediaTypeImageIndex \<noteq> []"
  by (simp add: MediaTypeImageIndex_def)




subsection \<open>Lemmas on the media type of a header\<close>

lemma toLower_idem: "toLower (toLower c) = toLower c"
  by (simp add: toLower_def)

lemma ToLower_idem: "ToLower (ToLower v) = ToLower v"
  by (simp add: ToLower_def toLower_idem)







subsection \<open>The claims\<close>




text \<open>
  C2. For every byte sequence \<open>p\<close> that \<open>UnmarshalManifest\<close> accepts through
  the piddle handler (found under the media type of the header, or as the default),
  the descriptor returned has the digest of exactly \<open>p\<close> and the size
  \<open>len(p)\<close>, and the \<open>Payload\<close> bytes of the manifest returned are \<open>p\<close>: the
  digest of \<open>Payload\<close> is the digest of the input.
\<close>

theorem UnmarshalManifest_descriptor_of_input_bytes:
  assumes resolved: "(if ctHeader \<noteq> [] then ParseMediaType ctHeader else Inr []) = Inr mediaType"
    and piddle: "mappings mediaType = Some (schema2Func Unmarshal FromBytes) \<or>
                 (mappings mediaType = None \<and>
                  mappings [] = Some (schema2Func Unmarshal FromBytes))"
    and accepted: "UnmarshalManifest ParseMediaType mappings ctHeader p = Inr (m, d)"
  shows "Digest d = FromBytes p \<and> Size d = int (length p) \<and>
         Descriptor.MediaType d = MediaTypeImageIndex \<and>
         Payload m = (MediaTypeImageIndex, p, None) \<and>
         FromBytes (fst (snd (Payload m))) = Digest d"
proof -
  from resolved piddle have
    "UnmarshalManifest ParseMediaType mappings ctHeader p = schema2Func Unmarshal FromBytes p"
    by (auto simp: UnmarshalManifest_resolved)
  with accepted have "schema2Func Unmarshal FromBytes p = Inr (m, d)" by simp
  from schema2Func_success [OF this] show ?thesis
    by (simp add: Payload_def)
qed

text \<open>C2 at the sample document.\<close>

theorem UnmarshalManifest_descriptor_of_input_bytes_witness:
  "(if MediaTypeImageIndex \<noteq> [] then mime_ParseMediaType MediaTypeImageIndex else Inr [])
     = Inr MediaTypeImageIndex \<and>
   piddle_mappings MediaTypeImageIndex = Some (schema2Func Unmarshal_table FromBytes_standin) \<and>
   UnmarshalManifest mime_ParseMediaType piddle_mappings MediaTypeImageIndex sample_payload =
     Inr (\<lparr>Manifest = sample_Manifest, canonical = sample_payload\<rparr>,
          zero_Descriptor\<lparr>Digest := FromBytes_standin sample_payload,
                           Size := int (length sample_payload),
                           Descriptor.MediaType := MediaTypeImageIndex\<rparr>) \<and>
   Payload \<lparr>Manifest = sample_Manifest, canonical = sample_payload\<rparr> =
     (MediaTypeImageIndex, sample_payload, None)"
proof -
  have resolved:
    "(if MediaTypeImageIndex \<noteq> [] then mime_ParseMediaType MediaTypeImageIndex else Inr [])
       = Inr MediaTypeImageIndex"
    by (simp add: parse_MediaTypeImageIndex)
  have registered:
    "piddle_mappings MediaTypeImageIndex = Some (schema2Func Unmarshal_table FromBytes_standin)"
    by (simp add: piddle_mappings_def)
  have accepted:
    "UnmarshalManifest mime_ParseMediaType piddle_mappings MediaTypeImageIndex sample_payload =
       Inr (\<lparr>Manifest = sample_Manifest, canonical = sample_payload\<rparr>,
            zero_Descriptor\<lparr>Digest := FromBytes_standin sample_payload,
                             Size := int (length sample_payload),
                             Descriptor.MediaType := MediaTypeImageIndex\<rparr>)"
    using schema2Func_accepts
      [where Unmarshal = Unmarshal_table and b = sample_payload and decoded = sample_Manifest
         and FromBytes = FromBytes_standin]
    by (simp add: UnmarshalManifest_def parse_MediaTypeImageIndex MediaTypeImageIndex_not_empty
        registered Unmarshal_table_sample sample_MediaType)
  show ?thesis
    using UnmarshalManifest_descriptor_of_input_bytes
      [where ctHeader = MediaTypeImageIndex and ParseMediaType = mime_ParseMediaType
         and mediaType = MediaTypeImageIndex and mappings = piddle_mappings
         and Unmarshal = Unmarshal_table and FromBytes = FromBytes_standin
         and p = sample_payload]
      resolved registered accepted
    by simp
qed




text \<open>
  C4, amended. With only the default handler registered, \<open>UnmarshalManifest\<close>
  calls it for the empty header and for every header the MIME parser accepts;
  with no handler registered it fails with \<open>UnsupportedMediaTypeError\<close> for
  those headers. A header that is not empty and that the parser rejects returns
  the parser's error in both registries.
\<close>

theorem UnmarshalManifest_default_only_or_unregistered:
  fixes f :: "'m UnmarshalFunc"
  shows
  "((ctHeader = [] \<and> mediaType = []) \<or>
    (ctHeader \<noteq> [] \<and> ParseMediaType ctHeader = Inr mediaType) \<longrightarrow>
      UnmarshalManifest ParseMediaType (Map.empty([] \<mapsto> f)) ctHeader p = f p \<and>
      UnmarshalManifest ParseMediaType (Map.empty :: 'm mappings) ctHeader (p :: bytes) =
        (Inl (UnsupportedMediaTypeError mediaType) :: error + ('m \<times> Descriptor))) \<and>
   (ctHeader \<noteq> [] \<and> ParseMediaType ctHeader = Inl err \<longrightarrow>
      UnmarshalManifest ParseMediaType (Map.empty([] \<mapsto> f)) ctHeader p = Inl err \<and>
      UnmarshalManifest ParseMediaType (Map.empty :: 'm mappings) ctHeader p = Inl err)"
  by (auto simp: UnmarshalManifest_def)

text \<open>
  C4 at an accepted header and at the empty header, on both registries, and at a
  header the parser rejects.
\<close>

theorem UnmarshalManifest_default_only_or_unregistered_witness:
  "mime_ParseMediaType ''text/plain; charset=utf-8'' = Inr ''text/plain'' \<and>
   UnmarshalManifest mime_ParseMediaType
       (Map.empty([] \<mapsto> schema2Func Unmarshal_table FromBytes_standin))
       ''text/plain; charset=utf-8'' sample_payload =
     schema2Func Unmarshal_table FromBytes_standin sample_payload \<and>
   UnmarshalManifest mime_ParseMediaType
       (Map.empty([] \<mapsto> schema2Func Unmarshal_table FromBytes_standin))
       [] sample_payload =
     schema2Func Unmarshal_table FromBytes_standin sample_payload \<and>
   UnmarshalManifest mime_ParseMediaType (Map.empty :: DeserializedManifest mappings)
       ''text/plain; charset=utf-8'' sample_payload =
     Inl (UnsupportedMediaTypeError ''text/plain'') \<and>
   UnmarshalManifest mime_ParseMediaType (Map.empty :: DeserializedManifest mappings)
       [] sample_payload =
     Inl (UnsupportedMediaTypeError []) \<and>
   mime_ParseMediaType ''text/plain/extra'' =
     Inl (MediaTypeParseError ''mime: unexpected content after media subtype'') \<and>
   UnmarshalManifest mime_ParseMediaType
       (Map.empty([] \<mapsto> schema2Func Unmarshal_table FromBytes_standin))
       ''text/plain/extra'' sample_payload =
     Inl (MediaTypeParseError ''mime: unexpected content after media subtype'')"
proof -
  have parsed: "mime_ParseMediaType ''text/plain; charset=utf-8'' = Inr ''text/plain''"
    by code_simp
  have malformed: "mime_ParseMediaType ''text/plain/extra'' =
      Inl (MediaTypeParseError ''mime: unexpected content after media subtype'')"
    by code_simp
  show ?thesis
    using UnmarshalManifest_default_only_or_unregistered
        [where ctHeader = "''text/plain/extra''" and ParseMediaType = mime_ParseMediaType
           and mediaType = "[]"
           and err = "MediaTypeParseError ''mime: unexpected content after media subtype''"
           and f = "schema2Func Unmarshal_table FromBytes_standin" and p = sample_payload]
      UnmarshalManifest_default_only_or_unregistered
        [where ctHeader = "''text/plain; charset=utf-8''"
           and ParseMediaType = mime_ParseMediaType and mediaType = "''text/plain''"
           and f = "schema2Func Unmarshal_table FromBytes_standin" and p = sample_payload]
      UnmarshalManifest_default_only_or_unregistered
        [where ctHeader = "[]" and ParseMediaType = mime_ParseMediaType and mediaType = "[]"
           and f = "schema2Func Unmarshal_table FromBytes_standin" and p = sample_payload]
    by (simp add: parsed malformed)
qed

text \<open>
  C4 as stated fails at a header with parameters and no media type: with only the
  default handler registered the handler is not called (it would accept the
  document), and with an empty registry the error is the parser's.
\<close>

theorem UnmarshalManifest_malformed_header_counterexample:
  "UnmarshalManifest mime_ParseMediaType
       (Map.empty([] \<mapsto> schema2Func Unmarshal_table FromBytes_standin))
       ''; charset=utf-8'' sample_payload =
     Inl (MediaTypeParseError ''mime: no media type'') \<and>
   schema2Func Unmarshal_table FromBytes_standin sample_payload =
     Inr (\<lparr>Manifest = sample_Manifest, canonical = sample_payload\<rparr>,
          zero_Descriptor\<lparr>Digest := FromBytes_standin sample_payload,
                           Size := int (length sample_payload),
                           Descriptor.MediaType := MediaTypeImageIndex\<rparr>) \<and>
   UnmarshalManifest mime_ParseMediaType (Map.empty :: DeserializedManifest mappings)
       ''; charset=utf-8'' sample_payload =
     Inl (MediaTypeParseError ''mime: no media type'')"
  using schema2Func_accepts
      [where Unmarshal = Unmarshal_table and b = sample_payload and decoded = sample_Manifest
         and FromBytes = FromBytes_standin]
  by (simp add: UnmarshalManifest_def parse_no_media_type Unmarshal_table_sample sample_MediaType)

text \<open>
  C5. For every byte sequence that decodes into a manifest whose media type
  field is not \<open>MediaTypeImageIndex\<close>, \<open>UnmarshalJSON\<close> fails with a
  \<open>SchemaMismatchError\<close> whose message names the constant and the decoded value,
  and so do the registered handler and \<open>UnmarshalManifest\<close> through it.
\<close>

theorem UnmarshalJSON_rejects_other_media_type:
  assumes decoded: "Unmarshal b = Inr decoded"
    and mismatch: "Versioned.MediaType (Versioned decoded) \<noteq> MediaTypeImageIndex"
  shows "snd (UnmarshalJSON Unmarshal m b) =
           Some (SchemaMismatchError MediaTypeImageIndex
                   (Versioned.MediaType (Versioned decoded))) \<and>
         error_message (SchemaMismatchError MediaTypeImageIndex
                          (Versioned.MediaType (Versioned decoded))) =
           ''mediaType in manifest should be '' @ [CHR 0x27] @
           ''application/vnd.piddle.image.index.v1+json'' @ [CHR 0x27] @ '' not '' @
           [CHR 0x27] @ Versioned.MediaType (Versioned decoded) @ [CHR 0x27] \<and>
         schema2Func Unmarshal FromBytes b =
           Inl (SchemaMismatchError MediaTypeImageIndex
                  (Versioned.MediaType (Versioned decoded))) \<and>
         (\<forall>ParseMediaType mappings ctHeader.
            ctHeader \<noteq> [] \<and> ParseMediaType ctHeader = Inr MediaTypeImageIndex \<and>
            mappings MediaTypeImageIndex = Some (schema2Func Unmarshal FromBytes) \<longrightarrow>
            UnmarshalManifest ParseMediaType (mappings :: DeserializedManifest mappings)
                ctHeader b =
              Inl (SchemaMismatchError MediaTypeImageIndex
                     (Versioned.MediaType (Versioned decoded))))"
proof -
  have failed: "UnmarshalJSON Unmarshal r b =
      (r\<lparr>canonical := b\<rparr>,
       Some (SchemaMismatchError MediaTypeImageIndex (Versioned.MediaType (Versioned decoded))))"
    for r
    using decoded mismatch by (simp add: UnmarshalJSON_def Let_def)
  have handler: "schema2Func Unmarshal FromBytes b =
      Inl (SchemaMismatchError MediaTypeImageIndex (Versioned.MediaType (Versioned decoded)))"
    by (simp add: schema2Func_def failed)
  have dispatched: "UnmarshalManifest ParseMediaType mappings ctHeader b =
      Inl (SchemaMismatchError MediaTypeImageIndex (Versioned.MediaType (Versioned decoded)))"
    if "ctHeader \<noteq> []" and "ParseMediaType ctHeader = Inr MediaTypeImageIndex"
      and "mappings MediaTypeImageIndex = Some (schema2Func Unmarshal FromBytes)"
    for ParseMediaType and mappings :: "DeserializedManifest mappings" and ctHeader
    using that handler by (simp add: UnmarshalManifest_def)
  show ?thesis
    using failed handler dispatched
    by (simp add: MediaTypeImageIndex_def)
qed

text \<open>C5 at the document of scenario B.\<close>

theorem UnmarshalJSON_rejects_other_media_type_witness:
  "Unmarshal_table wrong_payload = Inr wrong_Manifest \<and>
   Versioned.MediaType (Versioned wrong_Manifest) \<noteq> MediaTypeImageIndex \<and>
   snd (UnmarshalJSON Unmarshal_table new_DeserializedManifest wrong_payload) =
     Some (SchemaMismatchError MediaTypeImageIndex ''wrong'') \<and>
   error_message (SchemaMismatchError MediaTypeImageIndex ''wrong'') =
     ''mediaType in manifest should be '' @ [CHR 0x27] @
     ''application/vnd.piddle.image.index.v1+json'' @ [CHR 0x27] @ '' not '' @
     [CHR 0x27] @ ''wrong'' @ [CHR 0x27] \<and>
   UnmarshalManifest mime_ParseMediaType piddle_mappings MediaTypeImageIndex wrong_payload =
     Inl (SchemaMismatchError MediaTypeImageIndex ''wrong'')"
proof -
  have registered:
    "piddle_mappings MediaTypeImageIndex = Some (schema2Func Unmarshal_table FromBytes_standin)"
    by (simp add: piddle_mappings_def)
  show ?thesis
    using UnmarshalJSON_rejects_other_media_type
        [where Unmarshal = Unmarshal_table and b = wrong_payload and decoded = wrong_Manifest
           and m = new_DeserializedManifest and FromBytes = FromBytes_standin]
      registered parse_MediaTypeImageIndex MediaTypeImageIndex_not_empty
    by (simp add: Unmarshal_table_wrong wrong_MediaType)
qed

text \<open>
  C6, amended. \<open>MarshalJSON\<close> returns the stored canonical bytes when there are
  any and fails with \<open>UninitializedManifestError\<close> when there are none, as for
  a freshly constructed value. \<open>Payload\<close> never fails: it returns the stored
  canonical bytes as they are.
\<close>

theorem MarshalJSON_and_Payload_of_canonical:
  "(canonical m \<noteq> [] \<longrightarrow> MarshalJSON m = Inr (canonical m)) \<and>
   (canonical m = [] \<longrightarrow> MarshalJSON m = Inl UninitializedManifestError) \<and>
   MarshalJSON new_DeserializedManifest = Inl UninitializedManifestError \<and>
   error_message UninitializedManifestError =
     ''JSON representation not initialized in DeserializedManifest'' \<and>
   snd (Payload m) = (canonical m, None)"
  by (simp add: MarshalJSON_def Payload_def new_DeserializedManifest_def)

text \<open>C6 at a value holding the sample document and at a fresh value.\<close>

theorem MarshalJSON_and_Payload_of_canonical_witness:
  "canonical \<lparr>Manifest = sample_Manifest, canonical = sample_payload\<rparr> \<noteq> [] \<and>
   MarshalJSON \<lparr>Manifest = sample_Manifest, canonical = sample_payload\<rparr> =
     Inr sample_payload \<and>
   canonical new_DeserializedManifest = [] \<and>
   MarshalJSON new_DeserializedManifest = Inl UninitializedManifestError \<and>
   snd (Payload \<lparr>Manifest = sample_Manifest, canonical = sample_payload\<rparr>) =
     (sample_payload, None)"
proof -
  have "sample_payload \<noteq> []" by (simp add: sample_payload_def)
  then show ?thesis
    using MarshalJSON_and_Payload_of_canonical
        [of "\<lparr>Manifest = sample_Manifest, canonical = sample_payload\<rparr>"]
      MarshalJSON_and_Payload_of_canonical [of new_DeserializedManifest]
    by (simp add: new_DeserializedManifest_def)
qed

text \<open>
  C6 as stated fails for \<open>Payload\<close>: on a fresh value it returns empty bytes
  and no error.
\<close>

theorem Payload_of_fresh_value_counterexample:
  "canonical new_DeserializedManifest = [] \<and>
   Payload new_DeserializedManifest = ([], [], None) \<and>
   snd (snd (Payload new_DeserializedManifest)) \<noteq> Some UninitializedManifestError"
  by (simp add: Payload_def new_DeserializedManifest_def zero_Manifest_def)

text \<open>
  C7. \<open>RegisterManifestSchema\<close> succeeds at most once per key: under a key
  that is bound it fails with \<open>DuplicateRegistrationError\<close> and leaves the whole
  registry as it was; under a free key it binds the function and changes no other
  key, and a second registration under that key fails and leaves the first
  function bound.
\<close>

theorem RegisterManifestSchema_once_per_key:
  "(mappings mediaType = Some f \<longrightarrow>
      RegisterManifestSchema mappings mediaType u =
        (mappings, Some (DuplicateRegistrationError mediaType))) \<and>
   (mappings mediaType = None \<longrightarrow>
      (case RegisterManifestSchema mappings mediaType u of (mappings1, err1) \<Rightarrow>
         err1 = None \<and> mappings1 mediaType = Some u \<and>
         (\<forall>k. k \<noteq> mediaType \<longrightarrow> mappings1 k = mappings k) \<and>
         (case RegisterManifestSchema mappings1 mediaType u' of (mappings2, err2) \<Rightarrow>
            err2 = Some (DuplicateRegistrationError mediaType) \<and>
            mappings2 mediaType = Some u \<and> mappings2 = mappings1))) \<and>
   error_message (DuplicateRegistrationError mediaType) =
     ''manifest media type registration would overwrite existing: '' @ mediaType"
  by (auto simp: RegisterManifestSchema_def)

text \<open>C7 at the registration of \<open>init\<close>, followed by a second one.\<close>

theorem RegisterManifestSchema_once_per_key_witness:
  "(Map.empty :: DeserializedManifest mappings) MediaTypeImageIndex = None \<and>
   RegisterManifestSchema Map.empty MediaTypeImageIndex
       (schema2Func Unmarshal_table FromBytes_standin) = (piddle_mappings, None) \<and>
   piddle_mappings MediaTypeImageIndex = Some (schema2Func Unmarshal_table FromBytes_standin) \<and>
   RegisterManifestSchema piddle_mappings MediaTypeImageIndex (\<lambda>b. Inl (JSONError [])) =
     (piddle_mappings, Some (DuplicateRegistrationError MediaTypeImageIndex))"
proof -
  have registered:
    "piddle_mappings MediaTypeImageIndex = Some (schema2Func Unmarshal_table FromBytes_standin)"
    by (simp add: piddle_mappings_def)
  have first: "RegisterManifestSchema Map.empty MediaTypeImageIndex
      (schema2Func Unmarshal_table FromBytes_standin) = (piddle_mappings, None)"
    by (simp add: RegisterManifestSchema_def piddle_mappings_def)
  show ?thesis
    using RegisterManifestSchema_once_per_key
        [where mappings = piddle_mappings and mediaType = MediaTypeImageIndex
           and f = "schema2Func Unmarshal_table FromBytes_standin"
           and u = "\<lambda>b. Inl (JSONError [])"]
      registered first
    by simp
qed

text \<open>
  C8. For every piddle manifest with config \<open>C\<close> and layers \<open>L1..Ln\<close>,
  \<open>References()\<close> is exactly the list \<open>[C, L1, ..., Ln]\<close>: the config first,
  then the layers in their stored order, \<open>1 + n\<close> entries in all.
\<close>

theorem References_config_then_layers:
  "References m = Config m # Layers m \<and> length (References m) = 1 + length (Layers m)"
  by (simp add: References_def)

text \<open>
  C9. A failing \<open>UnmarshalJSON\<close> is not atomic on its receiver: when the
  decoding fails, or the decoded media type field is not the constant, the call
  returns an error, the receiver's canonical bytes are the input, and its manifest
  fields are unchanged; the receiver has changed whenever its bytes differed from
  the input.
\<close>

theorem UnmarshalJSON_failure_keeps_copy:
  assumes failing: "(\<exists>err. Unmarshal b = Inl err) \<or>
      (\<exists>decoded. Unmarshal b = Inr decoded \<and>
         Versioned.MediaType (Versioned decoded) \<noteq> MediaTypeImageIndex)"
  shows "snd (UnmarshalJSON Unmarshal m b) \<noteq> None \<and>
         canonical (fst (UnmarshalJSON Unmarshal m b)) = b \<and>
         Manifest (fst (UnmarshalJSON Unmarshal m b)) = Manifest m \<and>
         (canonical m \<noteq> b \<longrightarrow> fst (UnmarshalJSON Unmarshal m b) \<noteq> m)"
proof -
  from failing obtain err where
    result: "UnmarshalJSON Unmarshal m b = (m\<lparr>canonical := b\<rparr>, Some err)"
    by (auto simp: UnmarshalJSON_def Let_def)
  have "m\<lparr>canonical := b\<rparr> \<noteq> m" if "canonical m \<noteq> b"
    using that by (cases m) auto
  with result show ?thesis by simp
qed

text \<open>C9 at a receiver holding the sample manifest and the document of scenario B.\<close>

theorem UnmarshalJSON_failure_keeps_copy_witness:
  "Unmarshal_table wrong_payload = Inr wrong_Manifest \<and>
   Versioned.MediaType (Versioned wrong_Manifest) \<noteq> MediaTypeImageIndex \<and>
   UnmarshalJSON Unmarshal_table
       \<lparr>Manifest = sample_Manifest, canonical = sample_payload\<rparr> wrong_payload =
     (\<lparr>Manifest = sample_Manifest, canonical = wrong_payload\<rparr>,
      Some (SchemaMismatchError MediaTypeImageIndex ''wrong''))"
proof -
  have result: "UnmarshalJSON Unmarshal_table
       \<lparr>Manifest = sample_Manifest, canonical = sample_payload\<rparr> wrong_payload =
     (\<lparr>Manifest = sample_Manifest, canonical = wrong_payload\<rparr>,
      Some (SchemaMismatchError MediaTypeImageIndex ''wrong''))"
    by (simp add: UnmarshalJSON_def Let_def Unmarshal_table_wrong wrong_MediaType)
  show ?thesis
    using UnmarshalJSON_failure_keeps_copy
        [where Unmarshal = Unmarshal_table and b = wrong_payload
           and m = "\<lparr>Manifest = sample_Manifest, canonical = sample_payload\<rparr>"]
      result
    by (simp add: Unmarshal_table_wrong wrong_MediaType)
qed

text \<open>
  C10. With an empty header \<open>UnmarshalManifest\<close> does not parse: whatever the
  parser is, it looks up the empty key; it fails only when no default is
  registered, or with the error of the default handler.
\<close>

theorem UnmarshalManifest_empty_header:
  "UnmarshalManifest ParseMediaType mappings [] p =
     (case mappings [] of
        Some f \<Rightarrow> f p
      | None \<Rightarrow> Inl (UnsupportedMediaTypeError [])) \<and>
   UnmarshalManifest ParseMediaType mappings [] p =
     UnmarshalManifest ParseMediaType' mappings [] p \<and>
   (UnmarshalManifest ParseMediaType mappings [] p = Inl err \<longleftrightarrow>
      (mappings [] = None \<and> err = UnsupportedMediaTypeError []) \<or>
      (\<exists>f. mappings [] = Some f \<and> f p = Inl err))"
  by (auto simp: UnmarshalManifest_def split: option.splits)

text \<open>
  C10 with a parser that rejects the empty string: the default handler is called
  all the same, and a registry without a default gives \<open>UnsupportedMediaTypeError\<close>.
\<close>

theorem UnmarshalManifest_empty_header_witness:
  "mime_ParseMediaType [] = Inl (MediaTypeParseError ''mime: no media type'') \<and>
   UnmarshalManifest mime_ParseMediaType
       (Map.empty([] \<mapsto> schema2Func Unmarshal_table FromBytes_standin)) [] sample_payload =
     schema2Func Unmarshal_table FromBytes_standin sample_payload \<and>
   UnmarshalManifest mime_ParseMediaType piddle_mappings [] sample_payload =
     Inl (UnsupportedMediaTypeError [])"
  using UnmarshalManifest_empty_header
      [where ParseMediaType = mime_ParseMediaType
         and mappings = "Map.empty([] \<mapsto> schema2Func Unmarshal_table FromBytes_standin)"
         and p = sample_payload]
    UnmarshalManifest_empty_header
      [where ParseMediaType = mime_ParseMediaType and mappings = piddle_mappings
         and p = sample_payload]
  by (simp add: parse_empty piddle_mappings_def MediaTypeImageIndex_def)

end
